theory Spec2Isabelle
  imports Complex_Main "HOL-Library.Log_Nat"
begin

section \<open>Exceptions and NumPy primitives\<close>

text \<open>
  The development embeds \<^verbatim>\<open>src/ucc/aqc/mps_sequential.py\<close> and
  \<^verbatim>\<open>src/ucc/aqc/utils.py\<close>. A float64 is idealised as a \<^typ>\<open>real\<close> and a
  complex128 as a \<^typ>\<open>complex\<close>: arithmetic is exact, and NaN and infinities are not
  values. Every exception this code can run into is a constructor of \<open>error\<close>.
  \<open>InvalidInputError\<close> is the exception the specification names; no statement of the
  source raises it.
\<close>

datatype error =
    ValueError
  | AxisError
  | OverflowError
  | UFuncTypeError
  | UnboundLocalError
  | InvalidInputError

text \<open>\<^verbatim>\<open>int(np.ceil(np.log2(k)))\<close>: \<open>log2(0)\<close> is \<open>-inf\<close>, and \<open>int(-inf)\<close>
  raises OverflowError.\<close>

definition int_ceil_log2 :: "nat \<Rightarrow> error + nat" where
  "int_ceil_log2 k = (if k = 0 then Inl OverflowError else Inr (nat \<lceil>log 2 (real k)\<rceil>))"

text \<open>\<^verbatim>\<open>np.mean\<close>, \<^verbatim>\<open>np.sum\<close> of a 1-D array. The mean of an empty array is NaN in
  NumPy; the only caller that can pass an empty array subtracts it from the (empty) array
  itself, so the value is never read.\<close>

definition np_mean :: "real list \<Rightarrow> real" where
  "np_mean xs = sum_list xs / real (length xs)"

text \<open>\<^verbatim>\<open>np.isclose(a, b, atol=atol)\<close> with the default \<open>rtol = 1e-05\<close>:
  \<open>|a - b| <= atol + rtol * |b|\<close>.\<close>

definition np_isclose :: "real \<Rightarrow> real \<Rightarrow> real \<Rightarrow> bool" where
  "np_isclose a b atol = (\<bar>a - b\<bar> \<le> atol + (1 / 10 ^ 5) * \<bar>b\<bar>)"

text \<open>\<^verbatim>\<open>np.allclose(column, b)\<close> for a scalar \<open>b\<close>, with the defaults
  \<open>rtol = 1e-05\<close> and \<open>atol = 1e-08\<close>: every entry satisfies
  \<open>|x - b| <= atol + rtol * |b|\<close>.\<close>

definition np_allclose :: "complex list \<Rightarrow> complex \<Rightarrow> bool" where
  "np_allclose column b = list_all (\<lambda>x. cmod (x - b) \<le> 1 / 10 ^ 8 + (1 / 10 ^ 5) * cmod b) column"

text \<open>\<^verbatim>\<open>np.linalg.norm\<close> of a 1-D array.\<close>

definition np_norm :: "complex list \<Rightarrow> real" where
  "np_norm column = sqrt (\<Sum>x\<leftarrow>column. (cmod x) ^ 2)"

text \<open>The sum \<open>conj(a[k]) * b[k]\<close>: \<^verbatim>\<open>a.conj().T @ b\<close> on 1-D arrays of one length, and
  \<^verbatim>\<open>np.vdot(a, b)\<close>, which raises ValueError when the sizes differ.\<close>

definition vdot :: "complex list \<Rightarrow> complex list \<Rightarrow> complex" where
  "vdot a b = (\<Sum>(x, y)\<leftarrow>zip a b. cnj x * y)"

definition np_vdot :: "complex list \<Rightarrow> complex list \<Rightarrow> error + complex" where
  "np_vdot a b = (if length a \<noteq> length b then Inl ValueError else Inr (vdot a b))"

text \<open>\<open>>=\<close> on complex128 scalars: NumPy orders complex numbers lexicographically, by
  real part and then by imaginary part.\<close>

definition np_ge :: "complex \<Rightarrow> complex \<Rightarrow> bool" where
  "np_ge a b = (Re a > Re b \<or> (Re a = Re b \<and> Im a \<ge> Im b))"

text \<open>The global generator behind \<^verbatim>\<open>np.random.uniform\<close> is a stream of samples and a
  position in it; \<open>uniform g pos n\<close> are the \<open>n\<close> samples of one call (a float64 array),
  after which the position is \<open>pos + n\<close>.\<close>

type_synonym rng = "nat \<Rightarrow> real"

definition uniform :: "rng \<Rightarrow> nat \<Rightarrow> nat \<Rightarrow> real list" where
  "uniform g pos n = map g [pos..<pos + n]"

text \<open>A 1-D array with its dtype. An in-place operator writes its result into the left
  operand, and NumPy refuses to cast a complex128 result into a float64 array
  (\<open>UFuncTypeError\<close>, casting rule \<open>same_kind\<close>); a binary operator allocates a new
  array of the promoted dtype.\<close>

datatype ndvec = F64 "real list" | C128 "complex list"

fun to_complex :: "ndvec \<Rightarrow> complex list" where
  "to_complex (F64 xs) = map complex_of_real xs"
| "to_complex (C128 zs) = zs"

fun isub :: "ndvec \<Rightarrow> complex list \<Rightarrow> error + ndvec" where
  "isub (F64 xs) zs = Inl UFuncTypeError"
| "isub (C128 ws) zs = Inr (C128 (map2 (-) ws zs))"

fun iadd :: "ndvec \<Rightarrow> complex list \<Rightarrow> error + ndvec" where
  "iadd (F64 xs) zs = Inl UFuncTypeError"
| "iadd (C128 ws) zs = Inr (C128 (map2 (+) ws zs))"

definition add_new :: "ndvec \<Rightarrow> complex list \<Rightarrow> ndvec" where
  "add_new column zs = C128 (map2 (+) (to_complex column) zs)"

definition times_1j :: "real list \<Rightarrow> complex list" where
  "times_1j ys = map (\<lambda>y. \<i> * complex_of_real y) ys"

section \<open>Gram-Schmidt completion\<close>

text \<open>
  A 2-D complex128 array is the list of its columns, each of length \<open>num_rows\<close>:
  \<^verbatim>\<open>matrix[:, j]\<close> is \<open>matrix ! j\<close>. The parameter of \<open>gram_schmidt\<close> is a
  complex128 array (its annotation, and what \<open>generate_layer\<close> passes), so
  \<^verbatim>\<open>np.iscomplexobj(matrix)\<close> is true.

  \<open>column = matrix[:, j]\<close> is a view: the in-place subtractions of line 40 write into the
  caller's array, and the state keeps that array next to the locals of the function.
  When the column is rebound to a fresh random array (line 34) the caller's array is no
  longer written.
\<close>

type_synonym cmatrix = "complex list list"

definition num_rows_of :: "cmatrix \<Rightarrow> nat" where
  "num_rows_of m = (case m of [] \<Rightarrow> 0 | c # _ \<Rightarrow> length c)"

record gs_state =
  matrix :: cmatrix
  unitary :: cmatrix
  orthonormal_basis :: "complex list list"
  rng_pos :: nat

text \<open>Lines 39-40 and 49-50: \<^verbatim>\<open>column -= (basis_vector.conj().T @ column) * basis_vector\<close>
  for every basis vector in turn.\<close>

fun project :: "complex list list \<Rightarrow> ndvec \<Rightarrow> error + ndvec" where
  "project [] column = Inr column"
| "project (basis_vector # rest) column =
     (case isub column (map (\<lambda>x. vdot basis_vector (to_complex column) * x) basis_vector) of
        Inl e \<Rightarrow> Inl e
      | Inr column' \<Rightarrow> project rest column')"

text \<open>Lines 52-53.\<close>

definition store_column :: "gs_state \<Rightarrow> nat \<Rightarrow> ndvec \<Rightarrow> nat \<Rightarrow> gs_state" where
  "store_column st j column pos =
     (let u = map (\<lambda>x. x / complex_of_real (np_norm (to_complex column))) (to_complex column)
      in st\<lparr>unitary := (unitary st)[j := u],
            orthonormal_basis := orthonormal_basis st @ [u],
            rng_pos := pos\<rparr>)"

text \<open>Lines 45-50, then 52-53: the branch taken when the residual is numerically zero,
  from the position \<open>pos\<close> of the generator. Line 46 binds \<open>column\<close> to a float64
  array and line 48 adds to it in place.\<close>

definition retry_column :: "rng \<Rightarrow> nat \<Rightarrow> nat \<Rightarrow> gs_state \<Rightarrow> nat \<Rightarrow> error + gs_state" where
  "retry_column g num_rows j st pos =
     (case iadd (F64 (uniform g pos num_rows))
             (times_1j (uniform g (pos + num_rows) num_rows)) of
        Inl e \<Rightarrow> Inl e
      | Inr retry \<Rightarrow>
          (case project (orthonormal_basis st) retry of
             Inl e \<Rightarrow> Inl e
           | Inr retry' \<Rightarrow> Inr (store_column st j retry' (pos + 2 * num_rows))))"

text \<open>One iteration of the loop of line 29. On every path that reaches line 52 through
  the \<open>else\<close> the norm is at least \<open>1e-12\<close>, so the division is by a non-zero number.\<close>

definition gs_step :: "rng \<Rightarrow> nat \<Rightarrow> nat \<Rightarrow> gs_state \<Rightarrow> error + gs_state" where
  "gs_step g num_rows j st =
     (let view = matrix st ! j;
          is_zero = np_allclose view 0;
          column = (if is_zero
                    then add_new (F64 (uniform g (rng_pos st) num_rows))
                           (times_1j (uniform g (rng_pos st + num_rows) num_rows))
                    else C128 view);
          pos = (if is_zero then rng_pos st + 2 * num_rows else rng_pos st)
      in case project (orthonormal_basis st) column of
           Inl e \<Rightarrow> Inl e
         | Inr column' \<Rightarrow>
             (let st' = (if is_zero then st
                         else st\<lparr>matrix := (matrix st)[j := to_complex column']\<rparr>);
                  norm = np_norm (to_complex column')
              in if norm < 1 / 10 ^ 12
                 then retry_column g num_rows j st' pos
                 else Inr (store_column st' j column' pos)))"

fun gs_loop :: "rng \<Rightarrow> nat \<Rightarrow> nat list \<Rightarrow> gs_state \<Rightarrow> error + gs_state" where
  "gs_loop g num_rows [] st = Inr st"
| "gs_loop g num_rows (j # js) st =
     (case gs_step g num_rows j st of
        Inl e \<Rightarrow> Inl e
      | Inr st' \<Rightarrow> gs_loop g num_rows js st')"

text \<open>\<open>gram_schmidt\<close> returns \<open>unitary\<close>; the final state also holds the caller's array
  as the call leaves it and the position of the generator.\<close>

definition gram_schmidt :: "rng \<Rightarrow> nat \<Rightarrow> cmatrix \<Rightarrow> error + gs_state" where
  "gram_schmidt g pos m =
     (let num_rows = num_rows_of m;
          num_columns = length m
      in gs_loop g num_rows [0..<num_columns]
           \<lparr>matrix = m,
            unitary = replicate num_columns (replicate num_rows 0),
            orthonormal_basis = [],
            rng_pos = pos\<rparr>)"

section \<open>One layer of local unitaries\<close>

text \<open>
  The tensor-network library (quimb) and the circuit builder (qiskit) are not part of the
  repository. The operations this code calls are the fields of \<open>quimb\<close>, over a type
  \<open>'m\<close> of matrix product states; the ones that mutate their object return the new
  object. Exceptions raised inside the libraries are outside the model.
\<close>

text \<open>An array of any dimension holds its shape and its entries in row-major order; the
  length of \<open>data\<close> is the product of \<open>shape\<close>.\<close>

record ndarray =
  shape :: "nat list"
  data :: "complex list"

record 'm quimb =
  from_dense :: "complex list \<Rightarrow> 'm"
  tensor_network_1d_compress :: "'m \<Rightarrow> int \<Rightarrow> 'm"
  permute_arrays :: "'m \<Rightarrow> 'm"
  compress_left :: "'m \<Rightarrow> int \<Rightarrow> 'm"
  left_canonicalize :: "'m \<Rightarrow> 'm"
  normalize :: "'m \<Rightarrow> 'm"
  gate_split :: "cmatrix \<Rightarrow> int \<times> int \<Rightarrow> 'm \<Rightarrow> 'm"
  gate :: "cmatrix \<Rightarrow> int \<Rightarrow> 'm \<Rightarrow> 'm"
  to_dense :: "'m \<Rightarrow> complex list"
  sites :: "'m \<Rightarrow> nat"
  arrays :: "'m \<Rightarrow> ndarray list"

text \<open>\<^verbatim>\<open>a, b = tensor.shape\<close> raises ValueError unless the array is 2-D;
  \<^verbatim>\<open>tensor.reshape(new_shape)\<close> raises ValueError unless the sizes agree.\<close>

definition unpack2 :: "nat list \<Rightarrow> error + nat \<times> nat" where
  "unpack2 s = (case s of [a, b] \<Rightarrow> Inr (a, b) | _ \<Rightarrow> Inl ValueError)"

definition reshape :: "ndarray \<Rightarrow> nat list \<Rightarrow> error + ndarray" where
  "reshape t new_shape =
     (if prod_list new_shape = length (data t) then Inr (t\<lparr>shape := new_shape\<rparr>)
      else Inl ValueError)"

text \<open>Lines 135 and 139: \<^verbatim>\<open>np.swapaxes(tensor, 1, 2)\<close> raises AxisError below three
  dimensions, and \<^verbatim>\<open>d_left, d, d_right = tensor.shape\<close> raises ValueError above three.
  On a 3-D array of shape \<open>(a, b, c)\<close> the entry \<open>[i, k, j]\<close> of the result is the entry
  \<open>[i, j, k]\<close> of the argument; the data are listed in row-major order.\<close>

definition swapaxes_1_2 :: "ndarray \<Rightarrow> error + ndarray" where
  "swapaxes_1_2 t =
     (case shape t of
        [a, b, c] \<Rightarrow>
          Inr \<lparr>shape = [a, c, b],
               data = concat (map (\<lambda>i. concat (map (\<lambda>k. map (\<lambda>j. data t ! ((i * b + j) * c + k))
                                 [0..<b]) [0..<c])) [0..<a])\<rparr>
      | _ \<Rightarrow> if length (shape t) < 3 then Inl AxisError else Inl ValueError)"

text \<open>Lines 128-133: the boundary tensors are 2-D and get their missing bond.\<close>

definition pad_first :: "int \<Rightarrow> ndarray \<Rightarrow> error + ndarray" where
  "pad_first i tensor =
     (if i = 0
      then (case unpack2 (shape tensor) of
              Inl e \<Rightarrow> Inl e
            | Inr (d_right, d) \<Rightarrow> reshape tensor [1, d_right, d])
      else Inr tensor)"

definition pad_last :: "int \<Rightarrow> nat \<Rightarrow> ndarray \<Rightarrow> error + ndarray" where
  "pad_last i num_sites tensor =
     (if i = int num_sites - 1
      then (case unpack2 (shape tensor) of
              Inl e \<Rightarrow> Inl e
            | Inr (d_left, d) \<Rightarrow> reshape tensor [d_left, 1, d])
      else Inr tensor)"

text \<open>Lines 144-145: \<^verbatim>\<open>reversed(range(i - c, i + 1))\<close>, then
  \<^verbatim>\<open>abs(qubit - num_sites + 1)\<close>.\<close>

definition site_qubits :: "int \<Rightarrow> nat \<Rightarrow> nat \<Rightarrow> int list" where
  "site_qubits i num_sites c = map (\<lambda>qubit. \<bar>qubit - int num_sites + 1\<bar>) (rev [i - int c..i])"

text \<open>Lines 148-151: the square zero matrix, whose first columns are those of the isometry
  (an array of shape \<open>(n, d_right)\<close>, row-major). The assignment to the slice broadcasts,
  and raises ValueError when the isometry has more columns than the matrix, unless it has
  one column.\<close>

definition padded_matrix :: "complex list \<Rightarrow> nat \<Rightarrow> nat \<Rightarrow> error + cmatrix" where
  "padded_matrix isometry n d_right =
     (if d_right \<le> n \<or> d_right = 1
      then Inr (map (\<lambda>c. if c < d_right then map (\<lambda>r. isometry ! (r * d_right + c)) [0..<n]
                           else replicate n 0) [0..<n])
      else Inl ValueError)"

type_synonym gate = "int list \<times> cmatrix"

text \<open>The body of the loop of line 121 for the site \<open>i\<close>; it returns the gate and the
  position of the generator.\<close>

definition site_gate :: "rng \<Rightarrow> nat \<Rightarrow> nat \<Rightarrow> int \<Rightarrow> ndarray \<Rightarrow> error + gate \<times> nat" where
  "site_gate g pos num_sites i tensor =
     (case pad_first i tensor of
        Inl e \<Rightarrow> Inl e
      | Inr t1 \<Rightarrow>
     (case pad_last i num_sites t1 of
        Inl e \<Rightarrow> Inl e
      | Inr t2 \<Rightarrow>
     (case swapaxes_1_2 t2 of
        Inl e \<Rightarrow> Inl e
      | Inr t3 \<Rightarrow>
     (let d_left = shape t3 ! 0; d = shape t3 ! 1; d_right = shape t3 ! 2
      in case reshape t3 [d * d_left, d_right] of
        Inl e \<Rightarrow> Inl e
      | Inr isometry \<Rightarrow>
     (case int_ceil_log2 d_left of
        Inl e \<Rightarrow> Inl e
      | Inr c \<Rightarrow>
     (case padded_matrix (data isometry) (d * d_left) d_right of
        Inl e \<Rightarrow> Inl e
      | Inr m \<Rightarrow>
     (case gram_schmidt g pos m of
        Inl e \<Rightarrow> Inl e
      | Inr st \<Rightarrow> Inr ((site_qubits i num_sites c, unitary st), rng_pos st))))))))"

text \<open>The loop over \<^verbatim>\<open>enumerate(reversed(mps.arrays))\<close>, with the layer built so far.\<close>

fun layer_loop ::
    "rng \<Rightarrow> nat \<Rightarrow> (nat \<times> ndarray) list \<Rightarrow> gate list \<times> nat \<Rightarrow> error + gate list \<times> nat" where
  "layer_loop g num_sites [] acc = Inr acc"
| "layer_loop g num_sites ((k, tensor) # rest) (unitary_layer, pos) =
     (case site_gate g pos num_sites (int num_sites - int k - 1) tensor of
        Inl e \<Rightarrow> Inl e
      | Inr (gt, pos') \<Rightarrow> layer_loop g num_sites rest (unitary_layer @ [gt], pos'))"

definition generate_layer :: "'m quimb \<Rightarrow> rng \<Rightarrow> nat \<Rightarrow> 'm \<Rightarrow> error + gate list \<times> nat" where
  "generate_layer lib g pos mps =
     (let num_sites = sites lib mps
      in layer_loop g num_sites (enumerate 0 (rev (arrays lib mps))) ([], pos))"

section \<open>The disentanglement loop\<close>

text \<open>\<^verbatim>\<open>m.conj().T\<close> of a matrix held by columns, and \<^verbatim>\<open>m.shape[0]\<close>.\<close>

definition conj_T :: "cmatrix \<Rightarrow> cmatrix" where
  "conj_T m = map (\<lambda>r. map (\<lambda>col. cnj (col ! r)) m) [0..<num_rows_of m]"

text \<open>Lines 229-239: the inverses of the gates, taken from the end of the layer.\<close>

definition apply_inverse :: "'m quimb \<Rightarrow> gate list \<Rightarrow> 'm \<Rightarrow> nat \<Rightarrow> 'm" where
  "apply_inverse lib unitary_layer mps i =
     (let inverse = conj_T (snd (unitary_layer ! (length unitary_layer - (i + 1))))
      in if num_rows_of inverse = 4
         then gate_split lib inverse (int i - 1, int i) mps
         else gate lib inverse (int i) mps)"

definition apply_inverses :: "'m quimb \<Rightarrow> gate list \<Rightarrow> 'm \<Rightarrow> 'm" where
  "apply_inverses lib unitary_layer mps =
     foldl (apply_inverse lib unitary_layer) mps [0..<length unitary_layer]"

text \<open>Lines 205-206.\<close>

definition zero_state :: "nat \<Rightarrow> complex list" where
  "zero_state num_sites = (replicate (2 ^ num_sites) 0)[0 := 1]"

text \<open>The variables of \<open>mps_to_circuit_approx\<close> that the loop of line 214 assigns.
  \<open>layer_index\<close> and \<open>fidelity\<close> are unbound until the first iteration.\<close>

record 'm loop_state =
  disentangled_mps :: 'm
  unitary_layers :: "gate list list"
  layer_index :: "nat option"
  fidelity :: "complex option"
  rng_position :: nat

text \<open>Lines 217-250: one iteration, up to the computation of the fidelity.\<close>

definition loop_body ::
    "'m quimb \<Rightarrow> rng \<Rightarrow> int \<Rightarrow> complex list \<Rightarrow> nat \<Rightarrow> 'm loop_state \<Rightarrow> error + 'm loop_state" where
  "loop_body lib g chi_max zero k st =
     (let compressed_mps = compress_left lib (normalize lib (disentangled_mps st)) 2
      in case generate_layer lib g (rng_position st) compressed_mps of
           Inl e \<Rightarrow> Inl e
         | Inr (unitary_layer, pos) \<Rightarrow>
             (let disentangled =
                    tensor_network_1d_compress lib
                      (apply_inverses lib unitary_layer (disentangled_mps st)) chi_max
              in case np_vdot (to_dense lib disentangled) zero of
                   Inl e \<Rightarrow> Inl e
                 | Inr f \<Rightarrow>
                     Inr \<lparr>disentangled_mps = disentangled,
                          unitary_layers = unitary_layers st @ [unitary_layer],
                          layer_index = Some k,
                          fidelity = Some f,
                          rng_position = pos\<rparr>))"

text \<open>Lines 214-260: the \<open>for\<close> loop over \<^verbatim>\<open>range(max_num_layers)\<close>, left by
  \<open>break\<close> when \<^verbatim>\<open>fidelity >= self.target_fidelity\<close>.\<close>

fun disentangle_loop ::
    "'m quimb \<Rightarrow> rng \<Rightarrow> real \<Rightarrow> int \<Rightarrow> complex list \<Rightarrow> nat list \<Rightarrow> 'm loop_state
       \<Rightarrow> error + 'm loop_state" where
  "disentangle_loop lib g target_fidelity chi_max zero [] st = Inr st"
| "disentangle_loop lib g target_fidelity chi_max zero (k # ks) st =
     (case loop_body lib g chi_max zero k st of
        Inl e \<Rightarrow> Inl e
      | Inr st' \<Rightarrow>
          (case fidelity st' of
             None \<Rightarrow> Inl UnboundLocalError
           | Some f \<Rightarrow>
               if np_ge f (complex_of_real target_fidelity) then Inr st'
               else disentangle_loop lib g target_fidelity chi_max zero ks st'))"

text \<open>A circuit is the sizes of its registers and the list of the instructions appended
  by \<^verbatim>\<open>circuit.unitary(unitary, qubits)\<close>.\<close>

record circuit =
  num_qubits :: nat
  num_clbits :: nat
  instructions :: "(cmatrix \<times> int list) list"

definition append_layers :: "circuit \<Rightarrow> gate list list \<Rightarrow> circuit" where
  "append_layers c layers =
     c\<lparr>instructions := instructions c @ map (\<lambda>(qubits, u). (u, qubits)) (concat layers)\<rparr>"

text \<open>Lines 189-281. The test of line 262 reads \<open>layer_index\<close> whatever \<open>verbose\<close>
  is, and raises UnboundLocalError when the loop ran no iteration; printing has no other
  effect.\<close>

definition mps_to_circuit_approx ::
    "'m quimb \<Rightarrow> rng \<Rightarrow> nat \<Rightarrow> real \<Rightarrow> complex list \<Rightarrow> int \<Rightarrow> int \<Rightarrow> error + circuit" where
  "mps_to_circuit_approx lib g pos target_fidelity statevector max_num_layers chi_max =
     (let mps = left_canonicalize lib
                  (compress_left lib
                     (permute_arrays lib
                        (tensor_network_1d_compress lib (from_dense lib statevector) chi_max))
                     chi_max);
          circ = \<lparr>num_qubits = sites lib mps, num_clbits = sites lib mps, instructions = []\<rparr>;
          zero = zero_state (sites lib mps)
      in case disentangle_loop lib g target_fidelity chi_max zero [0..<nat max_num_layers]
                \<lparr>disentangled_mps = mps, unitary_layers = [], layer_index = None,
                 fidelity = None, rng_position = pos\<rparr> of
           Inl e \<Rightarrow> Inl e
         | Inr st \<Rightarrow>
             (case layer_index st of
                None \<Rightarrow> Inl UnboundLocalError
              | Some _ \<Rightarrow> Inr (append_layers circ (rev (unitary_layers st)))))"

section \<open>Entanglement-entropy slope\<close>

text \<open>
  \<open>partial_trace\<close> and \<open>entropy\<close> belong to qiskit. Their composition
  \<^verbatim>\<open>entropy(partial_trace(state, qargs), base=2)\<close> is the parameter \<open>S\<close> of the model.
\<close>

type_synonym entropy_fn = "complex list \<Rightarrow> nat list \<Rightarrow> real"

text \<open>Lines 22-27 of \<^verbatim>\<open>utils.py\<close> (69-74 of \<^verbatim>\<open>mps_sequential.py\<close>): the entropy of every cut
  \<open>k = 1 .. n // 2\<close>.\<close>

definition cut_entropies :: "entropy_fn \<Rightarrow> complex list \<Rightarrow> nat \<Rightarrow> real list" where
  "cut_entropies S state n = map (\<lambda>k. S state [k..<n]) [1..<n div 2 + 1]"

text \<open>Lines 30-40 of \<^verbatim>\<open>utils.py\<close> (77-87 of \<^verbatim>\<open>mps_sequential.py\<close>): keep the second half and
  fit a line through it.\<close>

definition regression_x :: "real list \<Rightarrow> real list" where
  "regression_x entropies = map real [1..<length entropies + 1]"

definition regression_numerator :: "real list \<Rightarrow> real" where
  "regression_numerator entropies =
     (let x = regression_x entropies;
          x_mean = np_mean x;
          y_mean = np_mean entropies
      in sum_list (map2 (\<lambda>xi yi. (xi - x_mean) * (yi - y_mean)) x entropies))"

definition regression_denominator :: "real list \<Rightarrow> real" where
  "regression_denominator entropies =
     (let x = regression_x entropies;
          x_mean = np_mean x
      in sum_list (map (\<lambda>xi. (xi - x_mean) ^ 2) x))"

definition fitted_slope :: "real list \<Rightarrow> real" where
  "fitted_slope all_entropies =
     (let entropies = drop (length all_entropies div 2) all_entropies;
          numerator = regression_numerator entropies;
          denominator = regression_denominator entropies
      in if denominator \<noteq> 0 then numerator / denominator else 0)"

definition calculate_entanglement_entropy_slope ::
    "entropy_fn \<Rightarrow> complex list \<Rightarrow> error + real" where
  "calculate_entanglement_entropy_slope S state =
     (case int_ceil_log2 (length state) of
        Inl e \<Rightarrow> Inl e
      | Inr n \<Rightarrow> Inr (fitted_slope (cut_entropies S state n)))"

definition entanglement_type :: "entropy_fn \<Rightarrow> complex list \<Rightarrow> error + string" where
  "entanglement_type S state =
     (case int_ceil_log2 (length state) of
        Inl e \<Rightarrow> Inl e
      | Inr n \<Rightarrow>
          (let slope = fitted_slope (cut_entropies S state n)
           in if np_isclose slope 1 (1 / 10) then Inr ''volume'' else Inr ''area''))"

section \<open>Notions of the specification\<close>

text \<open>The quantities the specification speaks of, written after its words, to be compared
  with what the code computes.\<close>


text \<open>The qubit subsets of a layer partition the register \<open>0 .. n - 1\<close>: no index
  occurs twice, and every index of the register occurs.\<close>

definition partitions_register :: "nat \<Rightarrow> int list list \<Rightarrow> bool" where
  "partitions_register n subsets =
     (distinct (concat subsets) \<and> set (concat subsets) = set (map int [0..<n]))"

text \<open>A column is the zero vector within an absolute tolerance.\<close>

definition zero_within :: "real \<Rightarrow> complex list \<Rightarrow> bool" where
  "zero_within tol column = list_all (\<lambda>x. cmod x \<le> tol) column"

text \<open>A statevector is normalised when its \<open>\<ell>2\<close> norm is 1.\<close>

definition l2_normalized :: "complex list \<Rightarrow> bool" where
  "l2_normalized statevector = (np_norm statevector = 1)"

text \<open>The entropy profile, the pairs (cut size, entropy) for the cut sizes
  \<open>1 .. \<lfloor>n / 2\<rfloor>\<close>, and the ordinary least-squares slope of a list of points, taken
  as 0 when the variance of the abscissae is 0.\<close>

definition entropy_profile :: "entropy_fn \<Rightarrow> complex list \<Rightarrow> nat \<Rightarrow> (real \<times> real) list" where
  "entropy_profile S state n = map (\<lambda>k. (real k, S state [k..<n])) [1..<n div 2 + 1]"

definition ols_slope :: "(real \<times> real) list \<Rightarrow> real" where
  "ols_slope pts =
     (let xs = map fst pts; ys = map snd pts;
          x_mean = np_mean xs; y_mean = np_mean ys;
          num = sum_list (map2 (\<lambda>x y. (x - x_mean) * (y - y_mean)) xs ys);
          den = sum_list (map (\<lambda>x. (x - x_mean) ^ 2) xs)
      in if den \<noteq> 0 then num / den else 0)"

text \<open>What is left of a complex column after the projections on a list of vectors have
  been subtracted one after the other.\<close>

fun residual :: "complex list list \<Rightarrow> complex list \<Rightarrow> complex list" where
  "residual [] column = column"
| "residual (b # bs) column = residual bs (map2 (-) column (map (\<lambda>x. vdot b column * x) b))"

text \<open>The left bond of the tensor of site \<open>i\<close>: 1 at the first site, the first dimension
  of the array elsewhere.\<close>

definition left_bond :: "nat \<Rightarrow> ndarray \<Rightarrow> nat" where
  "left_bond i tensor = (if i = 0 then 1 else case shape tensor of [] \<Rightarrow> 0 | d # _ \<Rightarrow> d)"

text \<open>The number of qubits, beyond its own, of the gate at position \<open>p\<close> of a layer, which
  is the gate of the site \<open>n - 1 - p\<close>: the logarithm of the left bond of the site.\<close>

definition extra_qubits :: "ndarray list \<Rightarrow> nat \<Rightarrow> nat" where
  "extra_qubits tensors p =
     ceillog2 (left_bond (length tensors - 1 - p) (tensors ! (length tensors - 1 - p)))"


text \<open>The test of line 252 on a state.\<close>

definition reached_target :: "'m loop_state \<Rightarrow> real \<Rightarrow> bool" where
  "reached_target st target_fidelity =
     (case fidelity st of
        None \<Rightarrow> False
      | Some f \<Rightarrow> np_ge f (complex_of_real target_fidelity))"

section \<open>Concrete inputs\<close>

text \<open>
  A library with fixed answers, for running the code on an example: a matrix product state
  is the list of its site tensors, \<open>from_dense\<close> returns \<open>mps\<close>, \<open>to_dense\<close> returns
  \<open>dense\<close>, and the other operations leave the state as it is.
\<close>

definition stub_lib :: "ndarray list \<Rightarrow> complex list \<Rightarrow> ndarray list quimb" where
  "stub_lib mps dense =
     \<lparr>from_dense = (\<lambda>statevector. mps),
      tensor_network_1d_compress = (\<lambda>m max_bond. m),
      permute_arrays = (\<lambda>m. m),
      compress_left = (\<lambda>m max_bond. m),
      left_canonicalize = (\<lambda>m. m),
      normalize = (\<lambda>m. m),
      gate_split = (\<lambda>u place m. m),
      gate = (\<lambda>u place m. m),
      to_dense = (\<lambda>m. dense),
      sites = length,
      arrays = (\<lambda>m. m)\<rparr>"

text \<open>A left-canonical matrix product state of \<open>3/5 |00\<rangle> + 4/5 |11\<rangle>\<close>, of bond
  dimension 2: the first site has shape \<open>(d_right, d)\<close>, the last \<open>(d_left, d)\<close>.\<close>

definition entangled_mps :: "ndarray list" where
  "entangled_mps =
     [\<lparr>shape = [2, 2], data = [1, 0, 0, 1]\<rparr>,
      \<lparr>shape = [2, 2], data = [3 / 5, 0, 0, 4 / 5]\<rparr>]"

text \<open>The layer the code generates from it: a two-qubit gate on the qubits 0 and 1 for the
  last site, a one-qubit gate on the qubit 1 for the first.\<close>

definition entangled_layer :: "gate list" where
  "entangled_layer =
     [([0, 1], [[3 / 5, 0, 0, 4 / 5], [0, - 1, 0, 0], [0, 0, - 1, 0], [4 / 5, 0, 0, - (3 / 5)]]),
      ([1], [[1, 0], [0, 1]])]"

text \<open>A generator given by a table of its non-zero samples.\<close>

definition table_rng :: "(nat \<times> real) list \<Rightarrow> rng" where
  "table_rng table k = (case map_of table k of None \<Rightarrow> 0 | Some x \<Rightarrow> x)"

definition layer_rng :: rng where
  "layer_rng = table_rng [(1, - 1), (10, - 1), (16, 4 / 5), (19, - (3 / 5))]"

definition first_sample_rng :: rng where
  "first_sample_rng = table_rng [(0, - 1)]"



text \<open>Six qubits, and cut entropies 1, 1 and 1.899995: those of a Bell pair across the
  first cut and a partially entangled pair across the third. The code reads a state
  through its length and through qiskit only, so the amplitudes below play no part.\<close>

definition six_qubit_state :: "complex list" where
  "six_qubit_state = replicate 64 (1 / 8)"

definition S_band :: entropy_fn where
  "S_band state qargs = (if length qargs = 3 then 379999 / 200000 else 1)"

section \<open>Properties of the entropy slope\<close>

lemma int_ceil_log2_pos: "0 < k \<Longrightarrow> int_ceil_log2 k = Inr (ceillog2 k)"
  by (simp add: int_ceil_log2_def ceillog2_def)

lemma length_cut_entropies: "length (cut_entropies S state n) = n div 2"
  by (simp add: cut_entropies_def)

lemma regression_denominator_short:
  "length es \<le> 1 \<Longrightarrow> regression_denominator es = 0"
proof (cases es)
  case Nil
  then show ?thesis by (simp add: regression_denominator_def regression_x_def)
next
  case (Cons e es')
  assume "length es \<le> 1"
  with Cons have "es = [e]" by simp
  then show ?thesis by (simp add: regression_denominator_def regression_x_def np_mean_def)
qed

lemma fitted_slope_degenerate:
  "regression_denominator (drop (length es div 2) es) = 0 \<Longrightarrow> fitted_slope es = 0"
  by (simp add: fitted_slope_def Let_def)

lemma retained_short: "length es \<le> 2 \<Longrightarrow> length (drop (length es div 2) es) \<le> 1"
  by (cases "length es = 2") auto

lemma not_isclose_0_1: "\<not> np_isclose 0 1 (1 / 10)"
  by (simp add: np_isclose_def)

lemma ceillog2_4: "ceillog2 4 = 2"
  by (rule ceillog2_eqI) simp_all

lemma ceillog2_64: "ceillog2 64 = 6"
  by (rule ceillog2_eqI) simp_all

text \<open>
  Claim C7. When the denominator of the regression (the variance of the cut indices of the
  retained entropies) is zero, the slope is exactly 0 and no error is raised: in
  \<open>calculate_entanglement_entropy_slope\<close>, which returns it, and in the same lines of
  \<open>entanglement_type\<close>, which then answers "area".
\<close>

theorem slope_zero_on_zero_denominator:
  assumes "state \<noteq> []"
    and "es = cut_entropies S state (ceillog2 (length state))"
    and "regression_denominator (drop (length es div 2) es) = 0"
  shows "calculate_entanglement_entropy_slope S state = Inr 0
       \<and> fitted_slope es = 0
       \<and> entanglement_type S state = Inr ''area''"
proof -
  from assms(1) have "0 < length state" by (cases state) auto
  then have n: "int_ceil_log2 (length state) = Inr (ceillog2 (length state))"
    by (rule int_ceil_log2_pos)
  from assms(3) have sl: "fitted_slope es = 0"
    by (rule fitted_slope_degenerate)
  show ?thesis using n sl assms(2)
    by (simp add: calculate_entanglement_entropy_slope_def entanglement_type_def
          not_isclose_0_1)
qed

theorem slope_zero_on_zero_denominator_witness:
  "[1, 0, 0, 0] \<noteq> ([] :: complex list)
   \<and> regression_denominator
        (drop (length (cut_entropies S_band [1, 0, 0, 0] (ceillog2 (length [1, 0, 0, 0 :: complex]))) div 2)
           (cut_entropies S_band [1, 0, 0, 0] (ceillog2 (length [1, 0, 0, 0 :: complex])))) = 0
   \<and> calculate_entanglement_entropy_slope S_band [1, 0, 0, 0] = Inr 0
   \<and> entanglement_type S_band [1, 0, 0, 0] = Inr ''area''"
proof -
  let ?state = "[1, 0, 0, 0] :: complex list"
  let ?es = "cut_entropies S_band ?state (ceillog2 (length ?state))"
  have ne: "?state \<noteq> []" by simp
  have "length ?state = 4" by simp
  then have "ceillog2 (length ?state) = 2" by (simp only: ceillog2_4)
  then have "length ?es \<le> 1" by (simp only: length_cut_entropies)
  then have "length (drop (length ?es div 2) ?es) \<le> 1" by simp
  then have den: "regression_denominator (drop (length ?es div 2) ?es) = 0"
    by (rule regression_denominator_short)
  from slope_zero_on_zero_denominator [OF ne refl den] ne den show ?thesis by blast
qed

text \<open>
  Claim C10. A statevector of at most 32 amplitudes (at most 5 qubits) leaves fewer than
  two points in the retained second half of the entropy sequence, whatever the entropies
  are; the slope returned is exactly 0 and the classification is "area".
\<close>

theorem small_states_are_area:
  assumes "state \<noteq> []" and "length state \<le> 32"
  shows "length (drop (length (cut_entropies S state (ceillog2 (length state))) div 2)
                 (cut_entropies S state (ceillog2 (length state)))) < 2
       \<and> regression_denominator
           (drop (length (cut_entropies S state (ceillog2 (length state))) div 2)
                 (cut_entropies S state (ceillog2 (length state)))) = 0
       \<and> calculate_entanglement_entropy_slope S state = Inr 0
       \<and> entanglement_type S state = Inr ''area''"
proof -
  let ?n = "ceillog2 (length state)"
  let ?es = "cut_entropies S state ?n"
  from assms(1) have pos: "0 < length state" by (cases state) auto
  then have n: "int_ceil_log2 (length state) = Inr ?n"
    by (rule int_ceil_log2_pos)
  have "length state \<le> 2 ^ 5" using assms(2) by simp
  then have "?n \<le> 5" using pos by (simp add: ceillog2_le_iff)
  then have "length ?es \<le> 2" by (simp add: length_cut_entropies)
  then have short: "length (drop (length ?es div 2) ?es) \<le> 1" by (rule retained_short)
  then have den: "regression_denominator (drop (length ?es div 2) ?es) = 0"
    by (rule regression_denominator_short)
  then have sl: "fitted_slope ?es = 0"
    by (rule fitted_slope_degenerate)
  show ?thesis using short den n sl
    by (simp add: calculate_entanglement_entropy_slope_def entanglement_type_def
          not_isclose_0_1)
qed

theorem small_states_are_area_witness:
  "replicate 32 (1 :: complex) \<noteq> [] \<and> length (replicate 32 (1 :: complex)) \<le> 32
   \<and> calculate_entanglement_entropy_slope S_band (replicate 32 1) = Inr 0
   \<and> entanglement_type S_band (replicate 32 1) = Inr ''area''"
proof -
  have ne: "replicate 32 (1 :: complex) \<noteq> []" by simp
  have le: "length (replicate 32 (1 :: complex)) \<le> 32" by simp
  from small_states_are_area [OF ne le, of S_band] ne le show ?thesis by blast
qed

text \<open>The code numbers the retained points from 1; the slope of a least-squares line does
  not change when the abscissae are shifted to the cut sizes.\<close>

lemma np_mean_shift:
  "xs \<noteq> [] \<Longrightarrow> np_mean (map (\<lambda>x. x + c) xs) = np_mean xs + c"
  by (simp add: np_mean_def sum_list_addf add_divide_distrib sum_list_triv)

lemma shift_numerator:
  "sum_list (map2 (\<lambda>x y. (x - np_mean (map (\<lambda>x. x + c) xs)) * (y - ym)) (map (\<lambda>x. x + c) xs) ys)
   = sum_list (map2 (\<lambda>x y. (x - np_mean xs) * (y - ym)) xs ys)"
proof (cases "xs = []")
  case True
  then show ?thesis by simp
next
  case False
  then show ?thesis by (simp add: np_mean_shift zip_map1 case_prod_unfold comp_def)
qed

lemma shift_denominator:
  "sum_list (map (\<lambda>x. (x - np_mean (map (\<lambda>x. x + c) xs)) ^ 2) (map (\<lambda>x. x + c) xs))
   = sum_list (map (\<lambda>x. (x - np_mean xs) ^ 2) xs)"
proof (cases "xs = []")
  case True
  then show ?thesis by simp
next
  case False
  then show ?thesis by (simp add: np_mean_shift comp_def)
qed

lemma map_real_shift:
  "map real [1 + c..<r + 1 + c] = map (\<lambda>x. x + real c) (map real [1..<r + 1])"
  by (induction r) simp_all

lemma profile_fst:
  "map fst (drop c (entropy_profile S state n)) = map real [1 + c..<n div 2 + 1]"
  by (simp add: entropy_profile_def drop_map comp_def)

lemma profile_snd:
  "map snd (drop c (entropy_profile S state n)) = drop c (cut_entropies S state n)"
  by (simp add: entropy_profile_def cut_entropies_def drop_map comp_def)

lemma fitted_slope_is_ols:
  "fitted_slope (cut_entropies S state n)
   = ols_slope (drop (n div 2 div 2) (entropy_profile S state n))"
proof -
  let ?m = "n div 2"
  let ?c = "?m div 2"
  let ?ret = "drop ?c (cut_entropies S state n)"
  have len: "length ?ret = ?m - ?c" by (simp add: length_cut_entropies)
  have "?m + 1 = (?m - ?c) + 1 + ?c" by simp
  then have xs: "map fst (drop ?c (entropy_profile S state n))
        = map (\<lambda>x. x + real ?c) (regression_x ?ret)"
    unfolding profile_fst regression_x_def len using map_real_shift [of ?c "?m - ?c"] by simp
  show ?thesis
    unfolding fitted_slope_def ols_slope_def regression_numerator_def regression_denominator_def
      Let_def length_cut_entropies profile_snd xs shift_numerator shift_denominator
    by simp
qed

lemma band_entropies: "cut_entropies S_band six_qubit_state 6 = [1, 1, 379999 / 200000]"
  by (simp add: cut_entropies_def S_band_def upt_rec)

lemma band_slope: "fitted_slope [1, 1, 379999 / 200000] = 179999 / 200000"
  by (simp add: fitted_slope_def regression_numerator_def regression_denominator_def
        regression_x_def np_mean_def Let_def upt_rec power2_eq_square)

lemma band_qubits: "int_ceil_log2 (length six_qubit_state) = Inr 6"
  by (simp add: six_qubit_state_def int_ceil_log2_pos ceillog2_64)

text \<open>
  Claim C8, amended. For a non-empty statevector on \<open>n\<close> qubits, the slope is the ordinary
  least-squares slope of entropy against cut size over the second half of the entropy
  profile for the cut sizes \<open>1 .. \<lfloor>n / 2\<rfloor>\<close>, and \<open>entanglement_type\<close> answers
  "volume" exactly when that slope is within \<open>0.1 + 1e-5\<close> of 1, and "area" otherwise:
  \<open>np.isclose\<close> adds its default relative tolerance to \<open>atol = 0.1\<close>.
\<close>

theorem entanglement_type_threshold:
  assumes "state \<noteq> []"
    and "slope = ols_slope (drop (ceillog2 (length state) div 2 div 2)
                              (entropy_profile S state (ceillog2 (length state))))"
  shows "calculate_entanglement_entropy_slope S state = Inr slope
       \<and> entanglement_type S state
           = Inr (if \<bar>slope - 1\<bar> \<le> 1 / 10 + 1 / 10 ^ 5 then ''volume'' else ''area'')"
proof -
  from assms(1) have "0 < length state" by (cases state) auto
  then have n: "int_ceil_log2 (length state) = Inr (ceillog2 (length state))"
    by (rule int_ceil_log2_pos)
  show ?thesis using n assms(2)
    by (simp add: calculate_entanglement_entropy_slope_def entanglement_type_def
          fitted_slope_is_ols np_isclose_def)
qed

theorem entanglement_type_threshold_witness:
  "six_qubit_state \<noteq> []
   \<and> entanglement_type S_band six_qubit_state
       = Inr (if \<bar>ols_slope (drop (ceillog2 (length six_qubit_state) div 2 div 2)
                       (entropy_profile S_band six_qubit_state (ceillog2 (length six_qubit_state)))) - 1\<bar>
                 \<le> 1 / 10 + 1 / 10 ^ 5 then ''volume'' else ''area'')"
proof -
  have ne: "six_qubit_state \<noteq> []" by (simp add: six_qubit_state_def)
  from entanglement_type_threshold [OF ne refl, of S_band] ne show ?thesis by blast
qed

text \<open>The claim as stated fails for a slope of 0.899995: it is not within 0.1 of 1, and the
  code answers "volume".\<close>

theorem entanglement_type_band_counterexample:
  "entanglement_type S_band six_qubit_state = Inr ''volume''
   \<and> calculate_entanglement_entropy_slope S_band six_qubit_state = Inr (179999 / 200000)
   \<and> \<not> \<bar>179999 / 200000 - 1\<bar> \<le> (1 / 10 :: real)"
proof -
  have slope: "fitted_slope (cut_entropies S_band six_qubit_state 6) = 179999 / 200000"
    by (simp only: band_entropies band_slope)
  have "np_isclose (179999 / 200000) 1 (1 / 10)" by (simp add: np_isclose_def)
  then show ?thesis
    by (simp add: entanglement_type_def calculate_entanglement_entropy_slope_def
          band_qubits slope)
qed

section \<open>Properties of the Gram-Schmidt completion\<close>

lemma project_C128: "project basis (C128 c) = Inr (C128 (residual basis c))"
  by (induction basis arbitrary: c) simp_all

lemma np_allclose_zero: "np_allclose column 0 = zero_within (1 / 10 ^ 8) column"
  by (simp add: np_allclose_def zero_within_def)

text \<open>Line 48 adds a complex128 array in place to the float64 array of line 46.\<close>

lemma retry_column_raises: "retry_column g num_rows j st pos = Inl UFuncTypeError"
  by (simp add: retry_column_def)

lemma gs_step_unfold:
  assumes "view = matrix st ! j"
    and "column = (if zero_within (1 / 10 ^ 8) view
                   then to_complex (add_new (F64 (uniform g (rng_pos st) num_rows))
                                      (times_1j (uniform g (rng_pos st + num_rows) num_rows)))
                   else view)"
    and "r = residual (orthonormal_basis st) column"
    and "pos = (if zero_within (1 / 10 ^ 8) view then rng_pos st + 2 * num_rows else rng_pos st)"
    and "st' = (if zero_within (1 / 10 ^ 8) view then st else st\<lparr>matrix := (matrix st)[j := r]\<rparr>)"
  shows "gs_step g num_rows j st =
           (if np_norm r < 1 / 10 ^ 12 then retry_column g num_rows j st' pos
            else Inr (store_column st' j (C128 r) pos))"
  using assms
  by (simp add: gs_step_def Let_def np_allclose_zero add_new_def project_C128)

lemmas gs_eval = gram_schmidt_def num_rows_of_def gs_step_def retry_column_def np_allclose_def
  Let_def store_column_def np_norm_def vdot_def upt_rec uniform_def add_new_def times_1j_def
  table_rng_def

text \<open>
  Claim C3. The claim promises orthonormal columns for every square complex matrix, rank
  deficient ones included. On the matrix with the two equal columns \<open>(1, 0)\<close> the second
  residual is zero, the code enters the branch of line 44, and line 48 raises
  \<open>UFuncTypeError\<close>, whatever the generator draws: no matrix is returned.
\<close>

theorem gram_schmidt_raises_on_dependent_columns:
  "gram_schmidt g pos [[1, 0], [1, 0]] = Inl UFuncTypeError"
  by (simp add: gs_eval)

text \<open>
  Claim C6, amended. A column is replaced by a random vector exactly when every entry has
  magnitude at most \<open>1e-8\<close>, the default absolute tolerance of \<open>np.allclose\<close>; the
  residual of the chosen column then takes the branch of line 44 exactly when its norm is
  below \<open>1e-12\<close>, and is normalised and stored otherwise.
\<close>

theorem gs_step_tolerances:
  assumes "view = matrix st ! j"
    and "column = (if zero_within (1 / 10 ^ 8) view
                   then to_complex (add_new (F64 (uniform g (rng_pos st) num_rows))
                                      (times_1j (uniform g (rng_pos st + num_rows) num_rows)))
                   else view)"
    and "r = residual (orthonormal_basis st) column"
    and "pos = (if zero_within (1 / 10 ^ 8) view then rng_pos st + 2 * num_rows else rng_pos st)"
    and "st' = (if zero_within (1 / 10 ^ 8) view then st else st\<lparr>matrix := (matrix st)[j := r]\<rparr>)"
  shows "(np_allclose view 0 \<longleftrightarrow> (\<forall>x\<in>set view. cmod x \<le> 1 / 10 ^ 8))
       \<and> gs_step g num_rows j st =
           (if np_norm r < 1 / 10 ^ 12 then retry_column g num_rows j st' pos
            else Inr (store_column st' j (C128 r) pos))"
proof -
  have "np_allclose view 0 \<longleftrightarrow> (\<forall>x\<in>set view. cmod x \<le> 1 / 10 ^ 8)"
    by (simp add: np_allclose_def list_all_iff)
  with gs_step_unfold [OF assms] show ?thesis by blast
qed

theorem gs_step_tolerances_witness:
  "gs_step first_sample_rng 1 0
     \<lparr>matrix = [[1 / 10 ^ 10]], unitary = [[0]], orthonormal_basis = [], rng_pos = 0\<rparr>
   = Inr \<lparr>matrix = [[1 / 10 ^ 10]], unitary = [[- 1]], orthonormal_basis = [[- 1]], rng_pos = 2\<rparr>"
  using gs_step_tolerances [OF refl refl refl refl refl,
      where g = first_sample_rng and num_rows = 1 and j = 0
        and st = "\<lparr>matrix = [[1 / 10 ^ 10]], unitary = [[0]], orthonormal_basis = [], rng_pos = 0\<rparr>"]
  by (simp add: zero_within_def gs_eval first_sample_rng_def)

text \<open>The claim as stated fails on the column \<open>(1e-10)\<close>: it is not zero within \<open>1e-12\<close>,
  and the code replaces it by the random vector, here \<open>(-1)\<close>, and moves the generator.\<close>

theorem zero_tolerance_counterexample:
  "\<not> zero_within (1 / 10 ^ 12) [1 / 10 ^ 10]
   \<and> gram_schmidt first_sample_rng 0 [[1 / 10 ^ 10]]
       = Inr \<lparr>matrix = [[1 / 10 ^ 10]], unitary = [[- 1]], orthonormal_basis = [[- 1]],
              rng_pos = 2\<rparr>"
  by (simp add: gs_eval zero_within_def first_sample_rng_def)

lemma gs_step_effect:
  assumes "gs_step g num_rows j st = Inr st'"
  shows "matrix st' = (if np_allclose (matrix st ! j) 0 then matrix st
                       else (matrix st)[j := residual (orthonormal_basis st) (matrix st ! j)])
       \<and> (\<exists>u. unitary st' = (unitary st)[j := u]
              \<and> orthonormal_basis st' = orthonormal_basis st @ [u])"
  using assms
  by (auto simp: gs_step_unfold [OF refl refl refl refl refl] retry_column_raises
        np_allclose_zero store_column_def Let_def split: if_splits)

text \<open>The invariant of the loop of line 29, from the column \<open>j\<close> on: the basis is the
  list of the columns of \<open>unitary\<close> written so far, the columns before \<open>j\<close> are not touched
  again, and every later column of the input ends as its residual.\<close>

lemma gs_loop_invariant:
  assumes "gs_loop g num_rows [j..<n] st = Inr st'"
    and "length (matrix st) = n" and "length (unitary st) = n"
    and "orthonormal_basis st = take j (unitary st)"
  shows "length (matrix st') = n \<and> length (unitary st') = n
       \<and> (\<forall>i<j. matrix st' ! i = matrix st ! i \<and> unitary st' ! i = unitary st ! i)
       \<and> (\<forall>i. j \<le> i \<and> i < n \<longrightarrow>
             matrix st' ! i = (if np_allclose (matrix st ! i) 0 then matrix st ! i
                               else residual (take i (unitary st')) (matrix st ! i)))"
  using assms
proof (induction "n - j" arbitrary: j st)
  case 0
  then have nj: "n \<le> j" by simp
  then have "[j..<n] = []" by simp
  with "0.prems" nj show ?case by auto
next
  case (Suc k)
  then have jn: "j < n" by simp
  then have upt: "[j..<n] = j # [Suc j..<n]" by (simp add: upt_rec)
  from Suc.prems(1) upt obtain st1 where
      step: "gs_step g num_rows j st = Inr st1"
      and rest: "gs_loop g num_rows [Suc j..<n] st1 = Inr st'"
    by (auto split: sum.splits)
  from gs_step_effect [OF step] obtain u where
      m1: "matrix st1 = (if np_allclose (matrix st ! j) 0 then matrix st
                         else (matrix st)[j := residual (orthonormal_basis st) (matrix st ! j)])"
      and u1: "unitary st1 = (unitary st)[j := u]"
      and b1: "orthonormal_basis st1 = orthonormal_basis st @ [u]"
    by blast
  have len_m1: "length (matrix st1) = n" using m1 Suc.prems(2) by simp
  have len_u1: "length (unitary st1) = n" using u1 Suc.prems(3) by simp
  have basis1: "orthonormal_basis st1 = take (Suc j) (unitary st1)"
    using b1 u1 Suc.prems(3,4) jn by (simp add: take_Suc_conv_app_nth)
  have k: "k = n - Suc j" using Suc.hyps(2) by simp
  from Suc.hyps(1) [OF k rest len_m1 len_u1 basis1]
  have IH: "length (matrix st') = n" "length (unitary st') = n"
      "\<forall>i<Suc j. matrix st' ! i = matrix st1 ! i \<and> unitary st' ! i = unitary st1 ! i"
      "\<forall>i. Suc j \<le> i \<and> i < n \<longrightarrow>
             matrix st' ! i = (if np_allclose (matrix st1 ! i) 0 then matrix st1 ! i
                               else residual (take i (unitary st')) (matrix st1 ! i))"
    by blast+
  have other_m: "\<And>i. i \<noteq> j \<Longrightarrow> matrix st1 ! i = matrix st ! i"
    using m1 by simp
  have other_u: "\<And>i. i \<noteq> j \<Longrightarrow> unitary st1 ! i = unitary st ! i"
    using u1 by simp
  have below: "\<forall>i<j. matrix st' ! i = matrix st ! i \<and> unitary st' ! i = unitary st ! i"
    using IH(3) other_m other_u by (metis less_Suc_eq nat_neq_iff)
  have take_j: "take j (unitary st') = take j (unitary st)"
    using below IH(2) Suc.prems(3) jn by (intro nth_take_lemma) auto
  have at_j: "matrix st' ! j = (if np_allclose (matrix st ! j) 0 then matrix st ! j
                               else residual (take j (unitary st')) (matrix st ! j))"
    using IH(3) m1 Suc.prems(2,4) jn take_j by simp
  have above: "\<forall>i. Suc j \<le> i \<and> i < n \<longrightarrow>
             matrix st' ! i = (if np_allclose (matrix st ! i) 0 then matrix st ! i
                               else residual (take i (unitary st')) (matrix st ! i))"
    using IH(4) other_m by simp
  have from_j: "\<forall>i. j \<le> i \<and> i < n \<longrightarrow>
             matrix st' ! i = (if np_allclose (matrix st ! i) 0 then matrix st ! i
                               else residual (take i (unitary st')) (matrix st ! i))"
    using at_j above by (metis Suc_leI le_neq_implies_less)
  show ?case using IH(1,2) below from_j by blast
qed

text \<open>
  Claim C9, amended. \<open>gram_schmidt\<close> writes into its argument: when it returns, every
  column of the caller's array that was not replaced by the random vector holds its
  residual, the column minus its projections on the columns of the result before it. The
  column differs from its original value only when one of these projections is not zero;
  the first column, and a column orthogonal to the ones before it, are left as they were.
\<close>

theorem gram_schmidt_leaves_residuals:
  assumes "gram_schmidt g pos m = Inr st"
  shows "length (matrix st) = length m
       \<and> (\<forall>j<length m. matrix st ! j = (if zero_within (1 / 10 ^ 8) (m ! j) then m ! j
                                        else residual (take j (unitary st)) (m ! j)))
       \<and> (m \<noteq> [] \<longrightarrow> matrix st ! 0 = m ! 0)"
proof -
  let ?st0 = "\<lparr>matrix = m, unitary = replicate (length m) (replicate (num_rows_of m) 0),
               orthonormal_basis = [], rng_pos = pos\<rparr>"
  from assms have loop: "gs_loop g (num_rows_of m) [0..<length m] ?st0 = Inr st"
    by (simp add: gram_schmidt_def Let_def)
  from gs_loop_invariant [OF loop]
  have all: "length (matrix st) = length m
       \<and> (\<forall>j<length m. matrix st ! j = (if zero_within (1 / 10 ^ 8) (m ! j) then m ! j
                                        else residual (take j (unitary st)) (m ! j)))"
    by (simp add: np_allclose_zero)
  then have "m \<noteq> [] \<longrightarrow> matrix st ! 0 = m ! 0" by auto
  with all show ?thesis by blast
qed

theorem gram_schmidt_leaves_residuals_witness:
  "gram_schmidt first_sample_rng 0 [[1, 0], [1, 1]]
     = Inr \<lparr>matrix = [[1, 0], [0, 1]], unitary = [[1, 0], [0, 1]],
            orthonormal_basis = [[1, 0], [0, 1]], rng_pos = 0\<rparr>
   \<and> [0, 1] = residual [[1, 0]] [1, 1]
   \<and> [0, 1] \<noteq> [1, 1 :: complex]"
proof -
  have run: "gram_schmidt first_sample_rng 0 [[1, 0], [1, 1]]
     = Inr \<lparr>matrix = [[1, 0], [0, 1]], unitary = [[1, 0], [0, 1]],
            orthonormal_basis = [[1, 0], [0, 1]], rng_pos = 0\<rparr>"
    by (simp add: gs_eval)
  have nz: "\<not> zero_within (1 / 10 ^ 8) [1, 1]" by (simp add: zero_within_def)
  from gram_schmidt_leaves_residuals [OF run]
  have "\<forall>j<length [[1, 0], [1, 1 :: complex]].
          [[1, 0], [0, 1]] ! j
            = (if zero_within (1 / 10 ^ 8) ([[1, 0], [1, 1]] ! j) then [[1, 0], [1, 1]] ! j
               else residual (take j [[1, 0], [0, 1]]) ([[1, 0], [1, 1]] ! j))"
    by simp
  then have "[[1, 0], [0, 1]] ! 1
            = (if zero_within (1 / 10 ^ 8) ([[1, 0], [1, 1 :: complex]] ! 1) then [[1, 0], [1, 1]] ! 1
               else residual (take 1 [[1, 0], [0, 1]]) ([[1, 0], [1, 1]] ! 1))"
    by (rule allE [where x = 1]) simp
  with nz have "[0, 1] = residual [[1, 0]] [1, 1 :: complex]"
    by (simp del: residual.simps)
  with run show ?thesis by simp
qed

text \<open>The claim as stated fails on the identity matrix: neither column is replaced by a
  random vector, every projection is zero, and the caller's array is left as it was.\<close>

theorem input_unchanged_counterexample:
  "\<not> np_allclose [1, 0] 0 \<and> \<not> np_allclose [0, 1] 0
   \<and> gram_schmidt first_sample_rng 0 [[1, 0], [0, 1]]
       = Inr \<lparr>matrix = [[1, 0], [0, 1]], unitary = [[1, 0], [0, 1]],
              orthonormal_basis = [[1, 0], [0, 1]], rng_pos = 0\<rparr>"
  by (simp add: gs_eval)

section \<open>Properties of a generated layer\<close>


lemma site_qubits_eq:
  "p < n \<Longrightarrow> site_qubits (int n - int p - 1) n c = map int [p..<p + c + 1]"
proof (induction c)
  case 0
  then show ?case by (simp add: site_qubits_def)
next
  case (Suc c)
  let ?i = "int n - int p - 1"
  have e: "?i - int (Suc c) + 1 = ?i - int c" by simp
  have "[?i - int (Suc c)..?i] = (?i - int (Suc c)) # [?i - int (Suc c) + 1..?i]"
    by (rule upto_rec1) simp
  then have "[?i - int (Suc c)..?i] = (?i - int (Suc c)) # [?i - int c..?i]"
    by (simp only: e)
  then have "site_qubits ?i n (Suc c) = site_qubits ?i n c @ [int (p + c + 1)]"
    using Suc.prems by (simp add: site_qubits_def)
  with Suc show ?case by simp
qed

lemma unpack2_Inr: "unpack2 s = Inr (a, b) \<Longrightarrow> s = [a, b]"
  by (auto simp: unpack2_def split: list.splits)

lemma reshape_Inr: "reshape t s = Inr t' \<Longrightarrow> shape t' = s"
  by (auto simp: reshape_def split: if_splits)

lemma swapaxes_Inr:
  "swapaxes_1_2 t = Inr t' \<Longrightarrow> \<exists>a b c. shape t = [a, b, c] \<and> shape t' = [a, c, b]"
  by (auto simp: swapaxes_1_2_def split: list.splits if_splits)

lemma pad_first_shape:
  assumes "pad_first i t = Inr t1"
  shows "if i = 0 then (\<exists>d_right d. shape t1 = [1, d_right, d]) else t1 = t"
  using assms
  by (auto simp: pad_first_def split: if_splits sum.splits dest!: unpack2_Inr reshape_Inr)

lemma pad_last_shape:
  assumes "pad_last i n t1 = Inr t2"
  shows "if i = int n - 1 then (\<exists>d_left d. shape t1 = [d_left, d] \<and> shape t2 = [d_left, 1, d])
         else t2 = t1"
  using assms
  by (auto simp: pad_last_def split: if_splits sum.splits dest!: unpack2_Inr reshape_Inr)

lemma site_gate_qubits:
  assumes "site_gate g pos n i t = Inr ((q, u), pos')" and "0 \<le> i"
  shows "0 < left_bond (nat i) t \<and> q = site_qubits i n (ceillog2 (left_bond (nat i) t))"
proof -
  from assms(1) obtain t1 t2 t3 c where
      p1: "pad_first i t = Inr t1" and p2: "pad_last i n t1 = Inr t2"
      and sw: "swapaxes_1_2 t2 = Inr t3"
      and lg: "int_ceil_log2 (shape t3 ! 0) = Inr c"
      and q: "q = site_qubits i n c"
    by (auto simp: site_gate_def Let_def split: sum.splits)
  from sw obtain a b d where s2: "shape t2 = [a, b, d]" and s3: "shape t3 = [a, d, b]"
    using swapaxes_Inr by blast
  from lg s3 have a: "0 < a" "c = ceillog2 a"
    by (auto simp: int_ceil_log2_def ceillog2_def split: if_splits)
  have "left_bond (nat i) t = a"
  proof (cases "i = 0")
    case True
    with pad_first_shape [OF p1] obtain d_right d' where s1: "shape t1 = [1, d_right, d']"
      by auto
    with pad_last_shape [OF p2] have "t2 = t1" by (auto split: if_splits)
    with s1 s2 True show ?thesis by (simp add: left_bond_def)
  next
    case False
    with pad_first_shape [OF p1] have t1: "t1 = t" by simp
    from False assms(2) have nz: "nat i \<noteq> 0" by simp
    show ?thesis
    proof (cases "i = int n - 1")
      case True
      with pad_last_shape [OF p2] s2 t1 have "\<exists>d'. shape t = [a, d']" by auto
      with nz show ?thesis by (auto simp: left_bond_def)
    next
      case False
      with pad_last_shape [OF p2] s2 t1 have "shape t = [a, b, d]" by auto
      with nz show ?thesis by (simp add: left_bond_def)
    qed
  qed
  with a q show ?thesis by simp
qed



lemma layer_loop_qubits:
  assumes "layer_loop g n items (acc, pos) = Inr (layer, pos')"
    and "\<forall>(k, t)\<in>set items. k < n"
  shows "map fst layer
         = map fst acc @ map (\<lambda>(k, t). site_qubits (int n - int k - 1) n
                                          (ceillog2 (left_bond (n - k - 1) t))) items"
  using assms
proof (induction items arbitrary: acc pos)
  case Nil
  then show ?case by simp
next
  case (Cons item items)
  obtain k t where item: "item = (k, t)" by (cases item)
  with Cons.prems(2) have kn: "k < n" by simp
  from Cons.prems(1) item obtain q u pos1 where
      sg: "site_gate g pos n (int n - int k - 1) t = Inr ((q, u), pos1)"
      and rest: "layer_loop g n items (acc @ [(q, u)], pos1) = Inr (layer, pos')"
    by (auto split: sum.splits)
  from kn have i: "0 \<le> int n - int k - 1" "nat (int n - int k - 1) = n - k - 1" by simp_all
  from site_gate_qubits [OF sg i(1)] i(2)
  have q: "q = site_qubits (int n - int k - 1) n (ceillog2 (left_bond (n - k - 1) t))" by simp
  from Cons.prems(2) have "\<forall>(k, t)\<in>set items. k < n" by simp
  from Cons.IH [OF rest this] q item show ?case by simp
qed

lemma map_enumerate:
  "map (\<lambda>(k, t). f k t) (enumerate 0 xs) = map (\<lambda>k. f k (xs ! k)) [0..<length xs]"
  by (rule nth_equalityI) (simp_all add: nth_enumerate_eq)

lemma generate_layer_qubits:
  assumes "generate_layer lib g pos mps = Inr (layer, pos')"
    and "sites lib mps = length (arrays lib mps)"
  shows "map fst layer = map (\<lambda>p. map int [p..<p + extra_qubits (arrays lib mps) p + 1])
                           [0..<length (arrays lib mps)]"
proof -
  let ?ts = "arrays lib mps"
  let ?n = "length ?ts"
  from assms have loop: "layer_loop g ?n (enumerate 0 (rev ?ts)) ([], pos) = Inr (layer, pos')"
    by (simp add: generate_layer_def Let_def)
  have "\<forall>(k, t)\<in>set (enumerate 0 (rev ?ts)). k < ?n"
    by (auto simp: in_set_enumerate_eq)
  from layer_loop_qubits [OF loop this]
  have "map fst layer = map (\<lambda>k. site_qubits (int ?n - int k - 1) ?n
                                (ceillog2 (left_bond (?n - k - 1) (rev ?ts ! k)))) [0..<?n]"
    by (simp add: map_enumerate)
  also have "\<dots> = map (\<lambda>p. map int [p..<p + extra_qubits ?ts p + 1]) [0..<?n]"
    by (rule map_cong) (auto simp: site_qubits_eq rev_nth extra_qubits_def)
  finally show ?thesis .
qed



text \<open>
  Claim C2, amended. In a layer generated from a matrix product state on \<open>n\<close> sites, the
  gate at position \<open>p\<close> (the gate of the site \<open>n - 1 - p\<close>) acts on the qubits
  \<open>p, \<dots>, p + \<lceil>log2 d_left\<rceil>\<close>, where \<open>d_left\<close> is the left bond of the site: the qubit
  \<open>p\<close> alone for a bond of 1, the qubits \<open>p\<close> and \<open>p + 1\<close> for a bond of 2. The subsets
  cover the register. They partition it exactly when every left bond is 1; a gate with a
  larger bond shares the qubit \<open>p + 1\<close> with the next gate.
\<close>

theorem layer_qubits:
  assumes "generate_layer lib g pos mps = Inr (layer, pos')"
    and "sites lib mps = length (arrays lib mps)"
    and "n = length (arrays lib mps)"
    and "e = extra_qubits (arrays lib mps)"
  shows "length layer = n
       \<and> (\<forall>p<n. fst (layer ! p) = map int [p..<p + e p + 1])
       \<and> (\<forall>q<n. int q \<in> set (concat (map fst layer)))
       \<and> (\<forall>p. Suc p < n \<and> 0 < e p \<longrightarrow>
              int (Suc p) \<in> set (fst (layer ! p)) \<inter> set (fst (layer ! Suc p)))
       \<and> (partitions_register n (map fst layer) \<longleftrightarrow> (\<forall>p<n. e p = 0))"
proof -
  from generate_layer_qubits [OF assms(1,2)] assms(3,4)
  have qs: "map fst layer = map (\<lambda>p. map int [p..<p + e p + 1]) [0..<n]" by simp
  then have "length (map fst layer) = n" by simp
  then have len: "length layer = n" by simp
  have at: "fst (layer ! p) = map int [p..<p + e p + 1]" if "p < n" for p
  proof -
    from that len have "fst (layer ! p) = map fst layer ! p" by simp
    also have "\<dots> = map int [p..<p + e p + 1]" using that by (simp add: qs)
    finally show ?thesis .
  qed
  have mem: "int q \<in> set (fst (layer ! p)) \<longleftrightarrow> p \<le> q \<and> q \<le> p + e p" if "p < n" for p q
    unfolding at [OF that] set_map set_upt by auto
  have own: "int p \<in> set (fst (layer ! p))" if "p < n" for p
    using mem [OF that] by simp
  have cover: "int q \<in> set (concat (map fst layer))" if "q < n" for q
    using own [OF that] that len by (auto intro!: bexI [where x = "layer ! q"])
  have overlap: "int (Suc p) \<in> set (fst (layer ! p)) \<inter> set (fst (layer ! Suc p))"
    if "Suc p < n" "0 < e p" for p
  proof -
    from that have "p < n" by simp
    from mem [OF this, of "Suc p"] that(2) have "int (Suc p) \<in> set (fst (layer ! p))"
      by (simp del: of_nat_Suc)
    with own [OF that(1)] show ?thesis by (simp del: of_nat_Suc)
  qed
  have last_e: "e (n - 1) = 0" if "0 < n"
    using that assms(3,4) by (simp add: extra_qubits_def left_bond_def)
  have part: "partitions_register n (map fst layer) \<longleftrightarrow> (\<forall>p<n. e p = 0)"
  proof
    assume zero: "\<forall>p<n. e p = 0"
    then have eq: "map (\<lambda>p. map int [p..<p + e p + 1]) [0..<n] = map (\<lambda>p. [int p]) [0..<n]"
      by (intro map_cong) auto
    have "concat (map fst layer) = map int [0..<n]"
      unfolding qs eq by simp
    then show "partitions_register n (map fst layer)"
      by (simp add: partitions_register_def distinct_map)
  next
    assume part: "partitions_register n (map fst layer)"
    show "\<forall>p<n. e p = 0"
    proof (intro allI impI, rule ccontr)
      fix p assume p: "p < n" and "e p \<noteq> 0"
      then have ep: "0 < e p" by simp
      have "p \<noteq> n - 1" using last_e ep p by auto
      with p have sp: "Suc p < n" by simp
      let ?ys = "fst (layer ! p)" and ?zs = "fst (layer ! Suc p)"
      have in_ys: "?ys \<in> set (map fst layer)" and in_zs: "?zs \<in> set (map fst layer)"
        using p sp len by auto
      have "hd ?ys = int p" "hd ?zs = int (Suc p)"
        using at [OF p] at [OF sp] by (simp_all add: upt_rec)
      then have ne: "?ys \<noteq> ?zs" by auto
      from part have "distinct (concat (map fst layer))"
        by (simp add: partitions_register_def)
      with in_ys in_zs ne have "set ?ys \<inter> set ?zs = {}"
        unfolding distinct_concat_iff by blast
      with overlap [OF sp ep] show False by blast
    qed
  qed
  from len at cover overlap part show ?thesis by blast
qed

lemma int_ceil_log2_1: "int_ceil_log2 (Suc 0) = Inr 0"
  by (simp add: int_ceil_log2_def)

lemma int_ceil_log2_2: "int_ceil_log2 2 = Inr 1"
  by (simp add: int_ceil_log2_def)

lemma replicate_4: "replicate 4 x = [x, x, x, x]"
  by (simp add: numeral_eq_Suc)

lemma replicate_2: "replicate 2 x = [x, x]"
  by (simp add: numeral_eq_Suc)

lemmas site_eval = site_gate_def pad_first_def pad_last_def unpack2_def reshape_def
  swapaxes_1_2_def padded_matrix_def site_qubits_def int_ceil_log2_1 int_ceil_log2_2
  upto.simps replicate_4 replicate_2 power2_eq_square

lemma site_gate_last:
  "site_gate layer_rng 0 (Suc (Suc 0)) 1 \<lparr>shape = [2, 2], data = [3 / 5, 0, 0, 4 / 5]\<rparr>
   = Inr (entangled_layer ! 0, 24)"
  by (simp add: gs_eval site_eval layer_rng_def entangled_layer_def)

lemma site_gate_first:
  "site_gate g pos (Suc (Suc 0)) 0 \<lparr>shape = [2, 2], data = [1, 0, 0, 1]\<rparr>
   = Inr (entangled_layer ! 1, pos)"
  by (simp add: gs_eval site_eval entangled_layer_def)

lemma generate_entangled_layer:
  "generate_layer (stub_lib entangled_mps dense) layer_rng 0 entangled_mps
   = Inr (entangled_layer, 24)"
proof -
  have "entangled_layer = [entangled_layer ! 0, entangled_layer ! 1]"
    by (simp add: entangled_layer_def)
  then show ?thesis
    by (simp add: generate_layer_def stub_lib_def entangled_mps_def enumerate_eq_zip upt_rec
          site_gate_last site_gate_first)
qed

theorem layer_qubits_witness:
  "generate_layer (stub_lib entangled_mps [1, 0, 0, 0]) layer_rng 0 entangled_mps
     = Inr (entangled_layer, 24)
   \<and> sites (stub_lib entangled_mps [1, 0, 0, 0]) entangled_mps
       = length (arrays (stub_lib entangled_mps [1, 0, 0, 0]) entangled_mps)
   \<and> length entangled_layer = 2
   \<and> int 1 \<in> set (fst (entangled_layer ! 0)) \<inter> set (fst (entangled_layer ! 1))"
proof -
  let ?lib = "stub_lib entangled_mps [1, 0, 0, 0]"
  have sites: "sites ?lib entangled_mps = length (arrays ?lib entangled_mps)"
    by (simp add: stub_lib_def)
  have n: "2 = length (arrays ?lib entangled_mps)"
    by (simp add: stub_lib_def entangled_mps_def)
  have e: "0 < extra_qubits (arrays ?lib entangled_mps) 0"
    by (simp add: extra_qubits_def stub_lib_def entangled_mps_def left_bond_def)
  note all = layer_qubits [OF generate_entangled_layer sites n refl]
  from all have len: "length entangled_layer = 2" by blast
  from all have "\<forall>p. Suc p < 2 \<and> 0 < extra_qubits (arrays ?lib entangled_mps) p \<longrightarrow>
      int (Suc p) \<in> set (fst (entangled_layer ! p)) \<inter> set (fst (entangled_layer ! Suc p))"
    by blast
  from this [rule_format, of 0] e len
  have "length entangled_layer = 2
      \<and> int 1 \<in> set (fst (entangled_layer ! 0)) \<inter> set (fst (entangled_layer ! 1))"
    by simp
  with generate_entangled_layer sites show ?thesis by simp
qed

text \<open>The claim as stated fails on the state \<open>3/5 |00\<rangle> + 4/5 |11\<rangle>\<close>, of bond dimension 2:
  the layer has the gates on the qubits \<open>(0, 1)\<close> and \<open>(1)\<close>, which share the qubit 1.\<close>

theorem layer_overlap_counterexample:
  "generate_layer (stub_lib entangled_mps [1, 0, 0, 0]) layer_rng 0 entangled_mps
     = Inr (entangled_layer, 24)
   \<and> map fst entangled_layer = [[0, 1], [1]]
   \<and> \<not> partitions_register 2 (map fst entangled_layer)"
  using generate_entangled_layer
  by (simp add: entangled_layer_def partitions_register_def)

section \<open>Properties of the disentanglement loop\<close>





lemma loop_body_result:
  assumes "loop_body lib g chi_max zero k st = Inr st'"
  shows "fidelity st' = Some (vdot (to_dense lib (disentangled_mps st')) zero)
       \<and> length (to_dense lib (disentangled_mps st')) = length zero
       \<and> layer_index st' = Some k
       \<and> length (unitary_layers st') = Suc (length (unitary_layers st))"
  using assms
  by (auto simp: loop_body_def Let_def np_vdot_def split: sum.splits prod.splits if_splits)

lemma disentangle_loop_step:
  assumes "loop_body lib g chi_max zero k st = Inr st'"
  shows "disentangle_loop lib g target_fidelity chi_max zero (k # ks) st
         = (if reached_target st' target_fidelity then Inr st'
            else disentangle_loop lib g target_fidelity chi_max zero ks st')"
  using assms loop_body_result [OF assms]
  by (simp add: reached_target_def)


lemma stub_lib_fields:
  "from_dense (stub_lib m d) sv = m"
  "tensor_network_1d_compress (stub_lib m d) x b = x"
  "permute_arrays (stub_lib m d) x = x"
  "compress_left (stub_lib m d) x b = x"
  "left_canonicalize (stub_lib m d) x = x"
  "normalize (stub_lib m d) x = x"
  "gate_split (stub_lib m d) u pl x = x"
  "gate (stub_lib m d) u i x = x"
  "to_dense (stub_lib m d) x = d"
  "sites (stub_lib m d) x = length x"
  "arrays (stub_lib m d) x = x"
  by (simp_all add: stub_lib_def)

lemma apply_inverses_stub: "apply_inverses (stub_lib m d) layer x = x"
proof -
  have "foldl (apply_inverse (stub_lib m d) layer) x is = x" for "is"
    by (induction "is") (simp_all add: apply_inverse_def Let_def stub_lib_fields)
  then show ?thesis by (simp add: apply_inverses_def)
qed

lemma zero_state_2: "zero_state 2 = [1, 0, 0, 0]"
  by (simp add: zero_state_def replicate_4)

lemma stub_loop_body:
  assumes "length dense = 4"
  shows "loop_body (stub_lib entangled_mps dense) layer_rng chi_max (zero_state 2) k
     \<lparr>disentangled_mps = entangled_mps, unitary_layers = [], layer_index = None,
      fidelity = None, rng_position = 0\<rparr>
   = Inr \<lparr>disentangled_mps = entangled_mps, unitary_layers = [entangled_layer],
          layer_index = Some k, fidelity = Some (vdot dense [1, 0, 0, 0]), rng_position = 24\<rparr>"
  using assms
  by (simp add: loop_body_def Let_def stub_lib_fields generate_entangled_layer
        apply_inverses_stub np_vdot_def zero_state_2)







lemma project_error: "project basis column = Inl e \<Longrightarrow> e = UFuncTypeError"
proof (induction basis arbitrary: column)
  case Nil
  then show ?case by simp
next
  case (Cons b basis)
  then show ?case by (cases column) (auto split: sum.splits)
qed

lemma gs_step_error: "gs_step g num_rows j st = Inl e \<Longrightarrow> e = UFuncTypeError"
  by (auto simp: gs_step_def retry_column_raises Let_def
        split: sum.splits if_splits dest: project_error)

lemma gs_loop_error: "gs_loop g num_rows js st = Inl e \<Longrightarrow> e = UFuncTypeError"
  by (induction js arbitrary: st) (auto split: sum.splits dest: gs_step_error)

lemma gram_schmidt_error: "gram_schmidt g pos m = Inl e \<Longrightarrow> e = UFuncTypeError"
  by (auto simp: gram_schmidt_def Let_def dest: gs_loop_error)

lemma site_gate_error: "site_gate g pos n i t = Inl e \<Longrightarrow> e \<noteq> InvalidInputError"
  by (auto simp: site_gate_def pad_first_def pad_last_def unpack2_def reshape_def
        swapaxes_1_2_def int_ceil_log2_def padded_matrix_def Let_def
        split: sum.splits if_splits list.splits prod.splits dest: gram_schmidt_error)

lemma layer_loop_error:
  "layer_loop g n items acc = Inl e \<Longrightarrow> e \<noteq> InvalidInputError"
proof (induction items arbitrary: acc)
  case Nil
  then show ?case by (cases acc) simp
next
  case (Cons item items)
  obtain k t where item: "item = (k, t)" by (cases item)
  obtain layer pos where acc: "acc = (layer, pos)" by (cases acc)
  show ?case
  proof (cases "site_gate g pos n (int n - int k - 1) t")
    case (Inl e')
    with Cons.prems item acc have "e = e'" by simp
    with Inl site_gate_error show ?thesis by blast
  next
    case (Inr r)
    obtain gt pos' where r: "r = (gt, pos')" by (cases r)
    from Cons.prems item acc Inr r
    have "layer_loop g n items (layer @ [gt], pos') = Inl e" by simp
    then show ?thesis by (rule Cons.IH)
  qed
qed

lemma generate_layer_error:
  "generate_layer lib g pos mps = Inl e \<Longrightarrow> e \<noteq> InvalidInputError"
  by (auto simp: generate_layer_def Let_def dest: layer_loop_error)

lemma loop_body_error:
  "loop_body lib g chi_max zero k st = Inl e \<Longrightarrow> e \<noteq> InvalidInputError"
  by (auto simp: loop_body_def Let_def np_vdot_def
        split: sum.splits prod.splits if_splits dest: generate_layer_error)

lemma disentangle_loop_error:
  "disentangle_loop lib g target_fidelity chi_max zero ks st = Inl e \<Longrightarrow> e \<noteq> InvalidInputError"
  by (induction ks arbitrary: st)
     (auto split: sum.splits option.splits if_splits dest: loop_body_error)

lemma mps_to_circuit_approx_error:
  "mps_to_circuit_approx lib g pos target_fidelity statevector max_num_layers chi_max = Inl e
   \<Longrightarrow> e \<noteq> InvalidInputError"
  by (auto simp: mps_to_circuit_approx_def Let_def
        split: sum.splits option.splits dest: disentangle_loop_error)

text \<open>With \<open>max_num_layers \<le> 0\<close> the loop makes no iteration, and line 262 reads the
  unbound \<open>layer_index\<close>.\<close>

lemma no_iteration_raises:
  "max_num_layers \<le> 0 \<Longrightarrow>
   mps_to_circuit_approx lib g pos target_fidelity statevector max_num_layers chi_max
   = Inl UnboundLocalError"
  by (simp add: mps_to_circuit_approx_def Let_def)

text \<open>
  Claim C5, amended. The code does not validate the statevector. It never raises
  \<open>InvalidInputError\<close>, and it reads the statevector only through the constructor
  \<open>from_dense\<close> of the library: two statevectors with the same matrix product state
  give the same outcome.
\<close>

theorem no_input_validation:
  "mps_to_circuit_approx lib g pos target_fidelity statevector max_num_layers chi_max
     \<noteq> Inl InvalidInputError
   \<and> (from_dense lib statevector = from_dense lib statevector' \<longrightarrow>
        mps_to_circuit_approx lib g pos target_fidelity statevector max_num_layers chi_max
        = mps_to_circuit_approx lib g pos target_fidelity statevector' max_num_layers chi_max)"
  using mps_to_circuit_approx_error [of lib g pos target_fidelity statevector max_num_layers chi_max]
  by (auto simp: mps_to_circuit_approx_def)

text \<open>The run on the statevector \<open>(3, 0, 0, 4)\<close>, of norm 5, with a library that answers
  the normalised matrix product state of \<open>3/5 |00\<rangle> + 4/5 |11\<rangle>\<close> and, after the inverse
  of the layer, the dense vector \<open>|00\<rangle>\<close>.\<close>

lemma stub_run:
  "mps_to_circuit_approx (stub_lib entangled_mps [1, 0, 0, 0]) layer_rng 0 (99 / 100)
     statevector 1 2
   = Inr \<lparr>num_qubits = 2, num_clbits = 2,
          instructions = map (\<lambda>(qubits, u). (u, qubits)) entangled_layer\<rparr>"
proof -
  let ?lib = "stub_lib entangled_mps [1, 0, 0, 0]"
  let ?init = "\<lparr>disentangled_mps = entangled_mps, unitary_layers = [], layer_index = None,
      fidelity = None, rng_position = 0 :: nat\<rparr>"
  let ?final = "\<lparr>disentangled_mps = entangled_mps, unitary_layers = [entangled_layer],
          layer_index = Some (0 :: nat), fidelity = Some (1 :: complex), rng_position = 24 :: nat\<rparr>"
  have body: "loop_body ?lib layer_rng 2 (zero_state 2) 0 ?init = Inr ?final"
    by (simp add: stub_loop_body vdot_def)
  have run: "disentangle_loop ?lib layer_rng (99 / 100) 2 (zero_state 2) [0..<nat 1] ?init = Inr ?final"
  proof -
    have "[0..<nat 1] = [0]" by simp
    then show ?thesis
      by (simp only: disentangle_loop_step [OF body]) (simp add: reached_target_def np_ge_def)
  qed
  have two: "length entangled_mps = 2" by (simp add: entangled_mps_def)
  show ?thesis
    unfolding mps_to_circuit_approx_def Let_def stub_lib_fields two run
    by (simp add: append_layers_def)
qed

theorem no_input_validation_witness:
  "from_dense (stub_lib entangled_mps [1, 0, 0, 0]) [3, 0, 0, 4]
     = from_dense (stub_lib entangled_mps [1, 0, 0, 0]) [3 / 5, 0, 0, 4 / 5]
   \<and> mps_to_circuit_approx (stub_lib entangled_mps [1, 0, 0, 0]) layer_rng 0 (99 / 100)
       [3, 0, 0, 4] 1 2
     = mps_to_circuit_approx (stub_lib entangled_mps [1, 0, 0, 0]) layer_rng 0 (99 / 100)
       [3 / 5, 0, 0, 4 / 5] 1 2"
proof -
  have same: "from_dense (stub_lib entangled_mps [1, 0, 0, 0]) [3, 0, 0, 4]
     = from_dense (stub_lib entangled_mps [1, 0, 0, 0]) [3 / 5, 0, 0, 4 / 5]"
    by (simp add: stub_lib_fields)
  from no_input_validation [of "stub_lib entangled_mps [1, 0, 0, 0]" layer_rng 0 "99 / 100"
      "[3, 0, 0, 4]" 1 2 "[3 / 5, 0, 0, 4 / 5]"] same
  show ?thesis by blast
qed

text \<open>The claim as stated fails on this statevector: it is not normalised, and the code
  returns a circuit.\<close>

theorem unnormalized_input_counterexample:
  "\<not> l2_normalized [3, 0, 0, 4]
   \<and> mps_to_circuit_approx (stub_lib entangled_mps [1, 0, 0, 0]) layer_rng 0 (99 / 100)
       [3, 0, 0, 4] 1 2
     = Inr \<lparr>num_qubits = 2, num_clbits = 2,
            instructions = map (\<lambda>(qubits, u). (u, qubits)) entangled_layer\<rparr>"
proof -
  have "np_norm [3, 0, 0, 4] = 5"
  proof -
    have "(3 :: real)\<^sup>2 + 4\<^sup>2 = 5\<^sup>2" by simp
    then show ?thesis by (simp add: np_norm_def)
  qed
  then have "\<not> l2_normalized [3, 0, 0, 4]" by (simp add: l2_normalized_def)
  with stub_run show ?thesis by simp
qed

section \<open>The outcome of the disentanglement loop\<close>

























end
